theory Spec2Isabelle
  imports Complex_Main "HOL-Library.Sublist"
begin

section \<open>Data model\<close>

text \<open>
  The dashboard script \<^verbatim>\<open>app.py\<close> reads \<^verbatim>\<open>Train.csv\<close> into a pandas data frame and
  works on it column by column. A data frame is modelled as the list of its rows in
  index order; a column is the list obtained by mapping the field over the rows. The
  record carries the columns the script names. The categorical columns hold strings,
  the numeric columns hold integers (pandas dtype \<^verbatim>\<open>int64\<close>, modelled as unbounded
  integers; no missing values).
\<close>

record Row =
  Mode_of_Shipment :: string
  Warehouse_block :: string
  Product_importance :: string
  Gender :: string
  Customer_care_calls :: int
  Cost_of_the_Product :: int
  Discount_offered :: int
  Reached_on_Time_Y_N :: int
  OnTime :: int

text \<open>Line 38: \<^verbatim>\<open>df["OnTime"] = df["Reached.on.Time_Y.N"]\<close> copies the column.\<close>

definition rename_for_easier_use :: "Row list \<Rightarrow> Row list" where
  "rename_for_easier_use df = map (\<lambda>r. r\<lparr>OnTime := Reached_on_Time_Y_N r\<rparr>) df"

text \<open>
  The four sidebar multiselects (lines 45-67) each return the list of selected values.
\<close>

record FilterSpec =
  shipment_mode :: "string list"
  warehouse :: "string list"
  product_importance :: "string list"
  gender :: "string list"

section \<open>pandas operations on columns\<close>

text \<open>\<^verbatim>\<open>Series.unique()\<close>: the distinct values in order of first appearance.\<close>

definition unique :: "'a list \<Rightarrow> 'a list" where
  "unique xs = rev (remdups (rev xs))"

text \<open>\<^verbatim>\<open>Series.isin(values)\<close>: the boolean column of memberships.\<close>

definition isin :: "'a list \<Rightarrow> 'a list \<Rightarrow> bool list" where
  "isin col vals = map (\<lambda>x. x \<in> set vals) col"

text \<open>\<^verbatim>\<open>a & b\<close> on two boolean columns of the same frame: elementwise conjunction.\<close>

definition band :: "bool list \<Rightarrow> bool list \<Rightarrow> bool list" where
  "band a b = map2 (\<and>) a b"

text \<open>\<^verbatim>\<open>df[mask]\<close>: the rows whose mask entry is true, in frame order.\<close>

definition boolean_index :: "'a list \<Rightarrow> bool list \<Rightarrow> 'a list" where
  "boolean_index df bs = map fst (filter snd (zip df bs))"

section \<open>Sidebar filters (lines 45-75)\<close>

text \<open>Every multiselect offers, and selects by default, the column's distinct values.\<close>

definition default_FilterSpec :: "Row list \<Rightarrow> FilterSpec" where
  "default_FilterSpec df =
     \<lparr>shipment_mode = unique (map Mode_of_Shipment df),
      warehouse = unique (map Warehouse_block df),
      product_importance = unique (map Product_importance df),
      gender = unique (map Gender df)\<rparr>"

definition filter_mask :: "Row list \<Rightarrow> FilterSpec \<Rightarrow> bool list" where
  "filter_mask df S =
     band (band (band (isin (map Mode_of_Shipment df) (shipment_mode S))
                      (isin (map Warehouse_block df) (warehouse S)))
                (isin (map Product_importance df) (product_importance S)))
          (isin (map Gender df) (gender S))"

definition filtered_df :: "Row list \<Rightarrow> FilterSpec \<Rightarrow> Row list" where
  "filtered_df df S = boolean_index df (filter_mask df S)"

text \<open>
  The specification's wording of the filter: a record is accepted when each of its four
  filterable fields is a member of the field's accepted set.
\<close>

definition accepted :: "FilterSpec \<Rightarrow> Row \<Rightarrow> bool" where
  "accepted S r =
     (Mode_of_Shipment r \<in> set (shipment_mode S) \<and>
      Warehouse_block r \<in> set (warehouse S) \<and>
      Product_importance r \<in> set (product_importance S) \<and>
      Gender r \<in> set (gender S))"

section \<open>Floating-point values\<close>

text \<open>
  The KPI variables are numpy \<^verbatim>\<open>float64\<close> values. They are modelled as exact reals
  together with the three special values; rounding and overflow are not modelled.
\<close>

datatype float64 = Fin real | PosInf | NegInf | NaN

text \<open>
  The outcome of a KPI statement is \<open>Inr\<close> of the value bound to the variable, or \<open>Inl\<close>
  of the exception it raises. \<open>UndefinedMetric\<close> is the exception the specification names;
  the script defines no exception and never raises it. \<open>ZeroDivisionError\<close> is what
  Python's own division raises on a zero divisor.
\<close>

datatype metric_error = UndefinedMetric | ZeroDivisionError

text \<open>
  \<^verbatim>\<open>/\<close> with a numpy integer on the left: true division in floating point. A zero
  divisor raises nothing (numpy emits a warning): \<^verbatim>\<open>0/0\<close> is NaN, \<^verbatim>\<open>x/0\<close> is an infinity.
\<close>

definition true_divide :: "int \<Rightarrow> int \<Rightarrow> float64" where
  "true_divide n d =
     (if d = 0 then (if n = 0 then NaN else if 0 < n then PosInf else NegInf)
      else Fin (real_of_int n / real_of_int d))"

fun f_neg :: "float64 \<Rightarrow> float64" where
  "f_neg (Fin a) = Fin (- a)"
| "f_neg PosInf = NegInf"
| "f_neg NegInf = PosInf"
| "f_neg NaN = NaN"

fun f_add :: "float64 \<Rightarrow> float64 \<Rightarrow> float64" where
  "f_add (Fin a) (Fin b) = Fin (a + b)"
| "f_add NaN _ = NaN"
| "f_add _ NaN = NaN"
| "f_add PosInf NegInf = NaN"
| "f_add NegInf PosInf = NaN"
| "f_add PosInf _ = PosInf"
| "f_add _ PosInf = PosInf"
| "f_add NegInf _ = NegInf"
| "f_add _ NegInf = NegInf"

definition f_sub :: "float64 \<Rightarrow> float64 \<Rightarrow> float64" where
  "f_sub a b = f_add a (f_neg b)"

fun f_sgn :: "float64 \<Rightarrow> real" where
  "f_sgn (Fin a) = sgn a"
| "f_sgn PosInf = 1"
| "f_sgn NegInf = - 1"
| "f_sgn NaN = 0"

fun f_mul :: "float64 \<Rightarrow> float64 \<Rightarrow> float64" where
  "f_mul (Fin a) (Fin b) = Fin (a * b)"
| "f_mul NaN _ = NaN"
| "f_mul _ NaN = NaN"
| "f_mul x y =
     (if f_sgn x * f_sgn y = 0 then NaN
      else if 0 < f_sgn x * f_sgn y then PosInf else NegInf)"

text \<open>\<open>f_less a b\<close> is \<^verbatim>\<open>a < b\<close>: every comparison with NaN is false.\<close>

fun f_less :: "float64 \<Rightarrow> float64 \<Rightarrow> bool" where
  "f_less (Fin a) (Fin b) = (a < b)"
| "f_less NaN _ = False"
| "f_less _ NaN = False"
| "f_less PosInf _ = False"
| "f_less _ NegInf = False"
| "f_less _ PosInf = True"
| "f_less NegInf _ = True"

section \<open>Column reductions and comparisons\<close>

text \<open>
  \<^verbatim>\<open>Series.mean()\<close>: the sum over the count in floating point; on an empty column the
  quotient \<^verbatim>\<open>0/0\<close> is NaN and nothing is raised.
\<close>

definition mean :: "int list \<Rightarrow> float64" where
  "mean xs = true_divide (sum_list xs) (int (length xs))"

text \<open>
  \<^verbatim>\<open>Series.median()\<close>: the middle value of the sorted column, the average of the two
  middle values for an even count, NaN for an empty column.
\<close>

definition median :: "int list \<Rightarrow> float64" where
  "median xs =
     (let s = sort xs; n = length s in
      if n = 0 then NaN
      else if odd n then Fin (real_of_int (s ! (n div 2)))
      else Fin ((real_of_int (s ! (n div 2 - 1)) + real_of_int (s ! (n div 2))) / 2))"

text \<open>\<^verbatim>\<open>col == c\<close> and \<^verbatim>\<open>col > m\<close>: elementwise comparison with a scalar.\<close>

definition eq_scalar :: "int list \<Rightarrow> int \<Rightarrow> bool list" where
  "eq_scalar col c = map (\<lambda>x. x = c) col"

definition gt_scalar :: "int list \<Rightarrow> float64 \<Rightarrow> bool list" where
  "gt_scalar col m = map (\<lambda>x. f_less m (Fin (real_of_int x))) col"

section \<open>KPI calculations (lines 86-93)\<close>

definition total_orders :: "Row list \<Rightarrow> nat" where
  "total_orders v = length v"

text \<open>
  Line 87 on a frame read from a file with data rows, whose columns are \<^verbatim>\<open>int64\<close>, with
  the sum of the flags taken exactly (it does not leave the 64-bit range): the sum is a
  numpy scalar and the division is numpy's.
\<close>

definition on_time_rate :: "Row list \<Rightarrow> metric_error + float64" where
  "on_time_rate v =
     Inr (f_mul (true_divide (sum_list (map OnTime v)) (int (total_orders v))) (Fin 100))"

definition late_rate :: "Row list \<Rightarrow> metric_error + float64" where
  "late_rate v = map_sum id (\<lambda>x. f_sub (Fin 100) x) (on_time_rate v)"

definition avg_discount_late :: "Row list \<Rightarrow> metric_error + float64" where
  "avg_discount_late v =
     Inr (mean (map Discount_offered (boolean_index v (eq_scalar (map OnTime v) 0))))"

definition avg_calls_late :: "Row list \<Rightarrow> metric_error + float64" where
  "avg_calls_late v =
     Inr (mean (map Customer_care_calls (boolean_index v (eq_scalar (map OnTime v) 0))))"

definition high_value :: "Row list \<Rightarrow> Row list" where
  "high_value v =
     boolean_index v
       (gt_scalar (map Cost_of_the_Product v) (median (map Cost_of_the_Product v)))"

definition high_value_late_rate :: "Row list \<Rightarrow> metric_error + float64" where
  "high_value_late_rate v =
     Inr (f_mul (f_sub (Fin 1) (mean (map OnTime (high_value v)))) (Fin 100))"

section \<open>Line 87 by the dtype of the column\<close>

text \<open>
  \<^verbatim>\<open>read_csv\<close> infers the dtype of a column from its values: \<^verbatim>\<open>int64\<close> for a column of
  integers, \<^verbatim>\<open>object\<close> when the file holds only the header line and the column no value.
  Filtering keeps the dtype.
\<close>

datatype dtype = Int64 | Object

definition inferred_dtype :: "Row list \<Rightarrow> dtype" where
  "inferred_dtype df = (if df = [] then Object else Int64)"

text \<open>
  \<^verbatim>\<open>Series.sum()\<close>: on an \<^verbatim>\<open>int64\<close> column a numpy \<^verbatim>\<open>int64\<close> scalar, the sum in 64-bit
  two's complement, which wraps silently; on an \<^verbatim>\<open>object\<close> column the Python sum of
  the entries, an unbounded \<^verbatim>\<open>int\<close> (0 for the empty column).
\<close>

datatype scalar = NpInt64 int | PyInt int

definition wrap_int64 :: "int \<Rightarrow> int" where
  "wrap_int64 n = (n + 2 ^ 63) mod 2 ^ 64 - 2 ^ 63"

definition Series_sum :: "dtype \<Rightarrow> int list \<Rightarrow> scalar" where
  "Series_sum d xs =
     (case d of Int64 \<Rightarrow> NpInt64 (wrap_int64 (sum_list xs)) | Object \<Rightarrow> PyInt (sum_list xs))"

text \<open>
  \<^verbatim>\<open>a / b\<close> with \<open>b\<close> the Python \<^verbatim>\<open>int\<close> of \<^verbatim>\<open>len\<close>: numpy's true division when \<open>a\<close> is a
  numpy scalar, Python's when \<open>a\<close> is a Python \<^verbatim>\<open>int\<close>, and that one raises
  \<^verbatim>\<open>ZeroDivisionError\<close> on a zero divisor.
\<close>

definition truediv :: "scalar \<Rightarrow> int \<Rightarrow> metric_error + float64" where
  "truediv a d =
     (case a of
        NpInt64 n \<Rightarrow> Inr (true_divide n d)
      | PyInt n \<Rightarrow>
          if d = 0 then Inl ZeroDivisionError
          else Inr (Fin (real_of_int n / real_of_int d)))"

text \<open>Line 87 as executed on a view whose \<^verbatim>\<open>OnTime\<close> column has dtype \<open>d\<close>.\<close>

definition on_time_rate_dtype :: "dtype \<Rightarrow> Row list \<Rightarrow> metric_error + float64" where
  "on_time_rate_dtype d v =
     map_sum id (\<lambda>q. f_mul q (Fin 100))
       (truediv (Series_sum d (map OnTime v)) (int (total_orders v)))"

section \<open>Chart aggregates\<close>

text \<open>
  Figure 1 (lines 120-127) is \<^verbatim>\<open>px.histogram\<close> with \<^verbatim>\<open>x="Mode_of_Shipment"\<close> and
  \<^verbatim>\<open>color="OnTime"\<close>. The script hands the plotting library one trace per value of the
  colour column, in order of first appearance, each holding the shipment modes of its
  rows. The bars are counted from these traces by the library's renderer, which is no
  part of the script.
\<close>

definition fig1_traces :: "Row list \<Rightarrow> (int \<times> string list) list" where
  "fig1_traces v =
     map (\<lambda>c. (c, map Mode_of_Shipment (filter (\<lambda>r. OnTime r = c) v)))
       (unique (map OnTime v))"

text \<open>
  Figure 5 (lines 172-177) shows \<^verbatim>\<open>DataFrame.corr()\<close> of the numeric columns: the Pearson
  coefficient of every pair of columns, the diagonal included, computed as the
  co-moment over the square root of the product of the two sums of squared deviations;
  where that divisor is zero, or the frame has no row, the entry is NaN.
\<close>

definition mean_r :: "int list \<Rightarrow> real" where
  "mean_r xs = real_of_int (sum_list xs) / real (length xs)"

definition ssqdm :: "int list \<Rightarrow> real" where
  "ssqdm xs = (\<Sum>x\<leftarrow>xs. (real_of_int x - mean_r xs) * (real_of_int x - mean_r xs))"

definition covxy :: "int list \<Rightarrow> int list \<Rightarrow> real" where
  "covxy xs ys =
     (\<Sum>(x, y)\<leftarrow>zip xs ys. (real_of_int x - mean_r xs) * (real_of_int y - mean_r ys))"

definition pearson :: "int list \<Rightarrow> int list \<Rightarrow> float64" where
  "pearson xs ys =
     (if length xs < 1 then NaN
      else let divisor = sqrt (ssqdm xs * ssqdm ys) in
        if divisor \<noteq> 0 then Fin (covxy xs ys / divisor) else NaN)"

definition corr :: "int list list \<Rightarrow> float64 list list" where
  "corr cols = map (\<lambda>xs. map (\<lambda>ys. pearson xs ys) cols) cols"

text \<open>
  \<^verbatim>\<open>select_dtypes(include=np.number)\<close>: the numeric columns of the record, in frame
  order. The file may hold further numeric columns the script never names; the results on
  \<open>corr\<close> below are stated for an arbitrary list of columns and cover them.
\<close>

definition select_dtypes_number :: "Row list \<Rightarrow> int list list" where
  "select_dtypes_number v =
     [map Customer_care_calls v, map Cost_of_the_Product v, map Discount_offered v,
      map Reached_on_Time_Y_N v, map OnTime v]"

definition fig5 :: "Row list \<Rightarrow> float64 list list" where
  "fig5 v = corr (select_dtypes_number v)"

text \<open>A column is constant when all its entries are the same value.\<close>

definition constant_column :: "int list \<Rightarrow> bool" where
  "constant_column xs = (length (remdups xs) \<le> 1)"

section \<open>Example inputs\<close>

text \<open>Example rows for the concrete instances below.\<close>

definition mk_row :: "string \<Rightarrow> string \<Rightarrow> string \<Rightarrow> string \<Rightarrow> int \<Rightarrow> int \<Rightarrow> int \<Rightarrow> int \<Rightarrow> Row" where
  "mk_row m w p g calls cost disc flag =
     \<lparr>Mode_of_Shipment = m, Warehouse_block = w, Product_importance = p, Gender = g,
      Customer_care_calls = calls, Cost_of_the_Product = cost, Discount_offered = disc,
      Reached_on_Time_Y_N = flag, OnTime = flag\<rparr>"

definition example_df :: "Row list" where
  "example_df =
     [mk_row ''Ship'' ''A'' ''low'' ''F'' 4 177 44 1,
      mk_row ''Flight'' ''B'' ''high'' ''M'' 5 216 20 0,
      mk_row ''Ship'' ''A'' ''medium'' ''M'' 2 183 48 1,
      mk_row ''Road'' ''F'' ''low'' ''F'' 3 176 10 1]"

definition example_spec :: "FilterSpec" where
  "example_spec =
     \<lparr>shipment_mode = [''Ship'', ''Road''], warehouse = [''A'', ''F''],
      product_importance = [''low'', ''medium''], gender = [''F'']\<rparr>"

definition constant_calls_view :: "Row list" where
  "constant_calls_view =
     [mk_row ''Ship'' ''A'' ''low'' ''F'' 4 177 44 1,
      mk_row ''Flight'' ''B'' ''high'' ''M'' 4 216 20 0]"

section \<open>The filter\<close>

lemma length_filter_mask: "length (filter_mask df S) = length df"
  by (simp add: filter_mask_def band_def isin_def)

lemma filter_mask_nth:
  "i < length df \<Longrightarrow> filter_mask df S ! i = accepted S (df ! i)"
  by (simp add: filter_mask_def band_def isin_def accepted_def)

lemma filter_mask_eq_map: "filter_mask df S = map (accepted S) df"
  by (rule nth_equalityI) (simp_all add: length_filter_mask filter_mask_nth)

lemma boolean_index_map: "boolean_index df (map P df) = filter P df"
  by (induction df) (simp_all add: boolean_index_def)

lemma filtered_df_eq_filter: "filtered_df df S = filter (accepted S) df"
  by (simp add: filtered_df_def filter_mask_eq_map boolean_index_map)

text \<open>
  C1. For every data frame and every filter selection the filtered frame is exactly the
  rows whose four filterable fields each lie in the field's accepted set: the mask entry
  of row \<open>i\<close> is the acceptance of row \<open>i\<close>, the result is the stable filter of the frame by
  that predicate (rows unchanged, original relative order, a subsequence of the frame),
  and it depends on the accepted lists only through their sets.
\<close>

theorem filtered_df_retains_iff_accepted:
  "filtered_df df S = filter (accepted S) df \<and>
   filter_mask df S = map (accepted S) df \<and>
   subseq (filtered_df df S) df \<and>
   set (filtered_df df S) = {r \<in> set df. accepted S r} \<and>
   accepted S r =
     (Mode_of_Shipment r \<in> set (shipment_mode S) \<and>
      Warehouse_block r \<in> set (warehouse S) \<and>
      Product_importance r \<in> set (product_importance S) \<and>
      Gender r \<in> set (gender S))"
  by (simp add: filtered_df_eq_filter filter_mask_eq_map accepted_def)

theorem filtered_df_retains_iff_accepted_witness:
  "filtered_df example_df example_spec =
     [mk_row ''Ship'' ''A'' ''low'' ''F'' 4 177 44 1,
      mk_row ''Road'' ''F'' ''low'' ''F'' 3 176 10 1]"
  using filtered_df_retains_iff_accepted [of example_df example_spec]
  by (simp add: example_df_def example_spec_def accepted_def mk_row_def)

text \<open>
  C4. Whenever at least one of the four accepted lists of a filter selection is empty,
  the filtered frame is the empty frame: a value, no error is involved.
\<close>

theorem empty_accepted_set_gives_empty_view:
  "shipment_mode S = [] \<or> warehouse S = [] \<or> product_importance S = [] \<or> gender S = []
   \<Longrightarrow> filtered_df df S = []"
  by (auto simp: filtered_df_eq_filter accepted_def filter_empty_conv)

theorem empty_accepted_set_gives_empty_view_witness:
  "gender (example_spec\<lparr>gender := []\<rparr>) = [] \<and>
   filtered_df example_df (example_spec\<lparr>gender := []\<rparr>) = []"
  using empty_accepted_set_gives_empty_view [of "example_spec\<lparr>gender := []\<rparr>" example_df]
  by simp

lemma set_unique: "set (unique xs) = set xs"
  by (simp add: unique_def)

lemma distinct_unique: "distinct (unique xs)"
  by (simp add: unique_def)

text \<open>
  C7. When the accepted set of each of the four fields equals the set of values the
  frame has in that column, the filtered frame is the frame itself.
\<close>

theorem full_domain_filter_is_identity:
  "set (shipment_mode S) = set (map Mode_of_Shipment df) \<Longrightarrow>
   set (warehouse S) = set (map Warehouse_block df) \<Longrightarrow>
   set (product_importance S) = set (map Product_importance df) \<Longrightarrow>
   set (gender S) = set (map Gender df) \<Longrightarrow>
   filtered_df df S = df"
  by (simp add: filtered_df_eq_filter accepted_def filter_id_conv)

text \<open>The default selection of the sidebar is such a full-domain selection.\<close>

lemma default_FilterSpec_identity: "filtered_df df (default_FilterSpec df) = df"
  by (simp add: filtered_df_eq_filter accepted_def filter_id_conv default_FilterSpec_def set_unique)

theorem full_domain_filter_is_identity_witness:
  "set (shipment_mode (default_FilterSpec example_df)) = set (map Mode_of_Shipment example_df) \<and>
   set (warehouse (default_FilterSpec example_df)) = set (map Warehouse_block example_df) \<and>
   set (product_importance (default_FilterSpec example_df))
     = set (map Product_importance example_df) \<and>
   set (gender (default_FilterSpec example_df)) = set (map Gender example_df) \<and>
   filtered_df example_df (default_FilterSpec example_df) = example_df"
proof -
  have h1: "set (shipment_mode (default_FilterSpec example_df))
      = set (map Mode_of_Shipment example_df)"
    by (simp add: default_FilterSpec_def set_unique)
  have h2: "set (warehouse (default_FilterSpec example_df))
      = set (map Warehouse_block example_df)"
    by (simp add: default_FilterSpec_def set_unique)
  have h3: "set (product_importance (default_FilterSpec example_df))
      = set (map Product_importance example_df)"
    by (simp add: default_FilterSpec_def set_unique)
  have h4: "set (gender (default_FilterSpec example_df)) = set (map Gender example_df)"
    by (simp add: default_FilterSpec_def set_unique)
  from full_domain_filter_is_identity [OF h1 h2 h3 h4] h1 h2 h3 h4 show ?thesis
    by blast
qed

text \<open>
  C10. The filter is monotone in the selection: when every accepted set of \<open>S\<close> is
  included in the corresponding accepted set of \<open>S'\<close>, every row position kept under
  \<open>S\<close> is kept under \<open>S'\<close>, and the frame filtered by \<open>S\<close> is a subsequence of the
  frame filtered by \<open>S'\<close> (it is that frame filtered once more by \<open>S\<close>).
\<close>

theorem filtered_df_monotone:
  "set (shipment_mode S) \<subseteq> set (shipment_mode S') \<Longrightarrow>
   set (warehouse S) \<subseteq> set (warehouse S') \<Longrightarrow>
   set (product_importance S) \<subseteq> set (product_importance S') \<Longrightarrow>
   set (gender S) \<subseteq> set (gender S') \<Longrightarrow>
   (\<forall>i < length df. filter_mask df S ! i \<longrightarrow> filter_mask df S' ! i) \<and>
   set (filtered_df df S) \<subseteq> set (filtered_df df S') \<and>
   subseq (filtered_df df S) (filtered_df df S') \<and>
   filtered_df df S = filtered_df (filtered_df df S') S"
proof -
  assume a: "set (shipment_mode S) \<subseteq> set (shipment_mode S')"
    "set (warehouse S) \<subseteq> set (warehouse S')"
    "set (product_importance S) \<subseteq> set (product_importance S')"
    "set (gender S) \<subseteq> set (gender S')"
  have imp: "accepted S r \<Longrightarrow> accepted S' r" for r
    using a by (auto simp: accepted_def)
  have eq: "filtered_df df S = filter (accepted S) (filtered_df df S')"
    using imp by (auto simp: filtered_df_eq_filter intro: filter_cong)
  have "subseq (filtered_df df S) (filtered_df df S')"
    by (subst eq) simp
  moreover have "set (filtered_df df S) \<subseteq> set (filtered_df df S')"
    using imp by (auto simp: filtered_df_eq_filter)
  moreover have "\<forall>i < length df. filter_mask df S ! i \<longrightarrow> filter_mask df S' ! i"
    using imp by (simp add: filter_mask_nth)
  moreover have "filtered_df df S = filtered_df (filtered_df df S') S"
    using eq by (simp add: filtered_df_eq_filter)
  ultimately show ?thesis by simp
qed

theorem filtered_df_monotone_witness:
  "set (gender example_spec) \<subseteq> set (gender (example_spec\<lparr>gender := [''F'', ''M'']\<rparr>)) \<and>
   filtered_df example_df example_spec = [example_df ! 0, example_df ! 3] \<and>
   filtered_df example_df (example_spec\<lparr>gender := [''F'', ''M'']\<rparr>) =
     [example_df ! 0, example_df ! 2, example_df ! 3] \<and>
   subseq (filtered_df example_df example_spec)
     (filtered_df example_df (example_spec\<lparr>gender := [''F'', ''M'']\<rparr>))"
proof -
  have h1: "set (shipment_mode example_spec)
      \<subseteq> set (shipment_mode (example_spec\<lparr>gender := [''F'', ''M'']\<rparr>))"
    by simp
  have h2: "set (warehouse example_spec)
      \<subseteq> set (warehouse (example_spec\<lparr>gender := [''F'', ''M'']\<rparr>))"
    by simp
  have h3: "set (product_importance example_spec)
      \<subseteq> set (product_importance (example_spec\<lparr>gender := [''F'', ''M'']\<rparr>))"
    by simp
  have h4: "set (gender example_spec)
      \<subseteq> set (gender (example_spec\<lparr>gender := [''F'', ''M'']\<rparr>))"
    by (simp add: example_spec_def)
  have a: "filtered_df example_df example_spec = [example_df ! 0, example_df ! 3]"
    by (simp add: example_spec_def example_df_def filtered_df_eq_filter accepted_def mk_row_def)
  have b: "filtered_df example_df (example_spec\<lparr>gender := [''F'', ''M'']\<rparr>) =
      [example_df ! 0, example_df ! 2, example_df ! 3]"
    by (simp add: example_spec_def example_df_def filtered_df_eq_filter accepted_def mk_row_def)
  from filtered_df_monotone [OF h1 h2 h3 h4, of example_df] h4 a b show ?thesis
    by blast
qed

section \<open>The KPI calculations\<close>

lemma boolean_index_eq_scalar:
  "boolean_index v (eq_scalar (map f v) c) = filter (\<lambda>r. f r = c) v"
  by (simp add: eq_scalar_def comp_def boolean_index_map)

lemma boolean_index_gt_scalar:
  "boolean_index v (gt_scalar (map f v) m) = filter (\<lambda>r. f_less m (Fin (real_of_int (f r)))) v"
  by (simp add: gt_scalar_def comp_def boolean_index_map)

lemma mean_Nil: "mean [] = NaN"
  by (simp add: mean_def true_divide_def)

lemma mean_nonempty:
  "xs \<noteq> [] \<Longrightarrow> mean xs = Fin (real_of_int (sum_list xs) / real (length xs))"
  by (simp add: mean_def true_divide_def)

lemma on_time_rate_value:
  "on_time_rate v =
     Inr (if total_orders v = 0 then NaN
          else Fin (real_of_int (sum_list (map OnTime v)) / real (total_orders v) * 100))"
  by (simp add: on_time_rate_def true_divide_def total_orders_def)

lemma wrap_int64_in_range: "- (2 ^ 63) \<le> n \<Longrightarrow> n < 2 ^ 63 \<Longrightarrow> wrap_int64 n = n"
  by (simp add: wrap_int64_def)

lemma on_time_rate_dtype_Int64:
  "on_time_rate_dtype Int64 v =
     Inr (if total_orders v = 0 then NaN
          else Fin (real_of_int (wrap_int64 (sum_list (map OnTime v)))
                    / real (total_orders v) * 100))"
  by (simp add: on_time_rate_dtype_def Series_sum_def truediv_def true_divide_def
      total_orders_def wrap_int64_def)

lemma on_time_rate_dtype_Object:
  "on_time_rate_dtype Object v =
     (if total_orders v = 0 then Inl ZeroDivisionError
      else Inr (Fin (real_of_int (sum_list (map OnTime v)) / real (total_orders v) * 100)))"
  by (simp add: on_time_rate_dtype_def Series_sum_def truediv_def total_orders_def)

lemma on_time_rate_dtype_exact:
  "- (2 ^ 63) \<le> sum_list (map OnTime v) \<Longrightarrow> sum_list (map OnTime v) < 2 ^ 63 \<Longrightarrow>
   on_time_rate_dtype Int64 v = on_time_rate v"
  by (simp add: on_time_rate_dtype_Int64 on_time_rate_value wrap_int64_in_range)

lemma filtered_df_Nil: "filtered_df [] S = []"
  by (simp add: filtered_df_eq_filter)

text \<open>
  C2 (as amended). Line 87 divides without a guard and never fails with
  \<open>UndefinedMetric\<close>. For a data set with rows (\<^verbatim>\<open>int64\<close> columns) an empty view gives the
  value NaN, from the floating-point division \<^verbatim>\<open>0/0\<close>; for the data set of a header-only
  file (\<^verbatim>\<open>object\<close> columns), whose view is always empty, Python's \<^verbatim>\<open>0/0\<close> raises
  \<open>ZeroDivisionError\<close>. For a non-empty view the rate is the sum of the on-time flags over
  the number of rows, times 100, the sum on an \<^verbatim>\<open>int64\<close> column being the 64-bit sum:
  the exact sum precisely when that lies in the 64-bit range.
\<close>

theorem on_time_rate_unguarded:
  "on_time_rate_dtype (inferred_dtype df) (filtered_df df S) =
     (if df = [] then Inl ZeroDivisionError
      else if total_orders (filtered_df df S) = 0 then Inr NaN
      else Inr (Fin (real_of_int (wrap_int64 (sum_list (map OnTime (filtered_df df S))))
                     / real (total_orders (filtered_df df S)) * 100))) \<and>
   on_time_rate_dtype d v \<noteq> Inl UndefinedMetric \<and>
   on_time_rate_dtype Int64 v =
     Inr (if total_orders v = 0 then NaN
          else Fin (real_of_int (wrap_int64 (sum_list (map OnTime v)))
                    / real (total_orders v) * 100)) \<and>
   on_time_rate_dtype Object v =
     (if total_orders v = 0 then Inl ZeroDivisionError
      else Inr (Fin (real_of_int (sum_list (map OnTime v)) / real (total_orders v) * 100))) \<and>
   (if - (2 ^ 63) \<le> sum_list (map OnTime v) \<and> sum_list (map OnTime v) < 2 ^ 63
    then wrap_int64 (sum_list (map OnTime v)) = sum_list (map OnTime v)
    else wrap_int64 (sum_list (map OnTime v)) \<noteq> sum_list (map OnTime v))"
proof -
  have a: "on_time_rate_dtype (inferred_dtype df) (filtered_df df S) =
     (if df = [] then Inl ZeroDivisionError
      else if total_orders (filtered_df df S) = 0 then Inr NaN
      else Inr (Fin (real_of_int (wrap_int64 (sum_list (map OnTime (filtered_df df S))))
                     / real (total_orders (filtered_df df S)) * 100)))"
  proof (cases "df = []")
    case True
    then show ?thesis
      by (simp add: inferred_dtype_def filtered_df_Nil on_time_rate_dtype_Object total_orders_def)
  next
    case False
    then show ?thesis
      by (simp add: inferred_dtype_def on_time_rate_dtype_Int64)
  qed
  have b: "on_time_rate_dtype d v \<noteq> Inl UndefinedMetric"
    by (cases d) (simp_all add: on_time_rate_dtype_Int64 on_time_rate_dtype_Object)
  have c: "if - (2 ^ 63) \<le> sum_list (map OnTime v) \<and> sum_list (map OnTime v) < 2 ^ 63
    then wrap_int64 (sum_list (map OnTime v)) = sum_list (map OnTime v)
    else wrap_int64 (sum_list (map OnTime v)) \<noteq> sum_list (map OnTime v)"
  proof (cases "- (2 ^ 63) \<le> sum_list (map OnTime v) \<and> sum_list (map OnTime v) < 2 ^ 63")
    case True
    then show ?thesis by (simp add: wrap_int64_in_range)
  next
    case False
    have "- (2 ^ 63) \<le> wrap_int64 n \<and> wrap_int64 n < 2 ^ 63" for n
      by (simp add: wrap_int64_def)
    with False show ?thesis by metis
  qed
  from a b c show ?thesis
    by (simp only: on_time_rate_dtype_Int64 on_time_rate_dtype_Object) simp
qed

text \<open>
  C2 as stated fails on the empty view of a data set with rows: the division by zero is
  performed and the statement binds NaN instead of failing with \<open>UndefinedMetric\<close>.
\<close>

theorem on_time_rate_empty_view_not_UndefinedMetric:
  "example_df \<noteq> [] \<and>
   total_orders (filtered_df example_df (example_spec\<lparr>gender := []\<rparr>)) = 0 \<and>
   on_time_rate_dtype (inferred_dtype example_df)
     (filtered_df example_df (example_spec\<lparr>gender := []\<rparr>)) = Inr NaN \<and>
   on_time_rate_dtype (inferred_dtype example_df)
     (filtered_df example_df (example_spec\<lparr>gender := []\<rparr>)) \<noteq> Inl UndefinedMetric"
proof -
  have "filtered_df example_df (example_spec\<lparr>gender := []\<rparr>) = []"
    by (simp add: filtered_df_eq_filter accepted_def)
  moreover have "example_df \<noteq> []"
    by (simp add: example_df_def)
  ultimately show ?thesis
    by (simp add: inferred_dtype_def on_time_rate_dtype_Int64 total_orders_def)
qed

theorem on_time_rate_unguarded_witness:
  "on_time_rate_dtype (inferred_dtype example_df) (filtered_df example_df example_spec)
     = Inr (Fin 100) \<and>
   on_time_rate_dtype (inferred_dtype example_df)
     (filtered_df example_df (example_spec\<lparr>gender := []\<rparr>)) = Inr NaN \<and>
   on_time_rate_dtype (inferred_dtype []) (filtered_df [] example_spec)
     = Inl ZeroDivisionError \<and>
   on_time_rate_dtype Int64 example_df = Inr (Fin 75)"
proof -
  have v: "filtered_df example_df example_spec = [example_df ! 0, example_df ! 3]"
    by (simp add: example_spec_def example_df_def filtered_df_eq_filter accepted_def mk_row_def)
  have e: "filtered_df example_df (example_spec\<lparr>gender := []\<rparr>) = []"
    by (simp add: filtered_df_eq_filter accepted_def)
  have ne: "example_df \<noteq> []"
    by (simp add: example_df_def)
  have w2: "wrap_int64 2 = 2" and w3: "wrap_int64 3 = 3"
    by (simp_all add: wrap_int64_def)
  have o0: "OnTime (example_df ! 0) = 1" and o3: "OnTime (example_df ! 3) = 1"
    by (simp_all add: example_df_def mk_row_def)
  have s2: "sum_list (map OnTime example_df) = 3"
    by (simp add: example_df_def mk_row_def)
  have l: "length example_df = 4"
    by (simp add: example_df_def)
  show ?thesis
    using on_time_rate_unguarded [of example_df example_spec Int64 example_df]
      on_time_rate_unguarded [of example_df "example_spec\<lparr>gender := []\<rparr>" Int64 example_df]
      on_time_rate_unguarded [of "[]" example_spec Int64 example_df]
    by (simp add: v e ne o0 o3 s2 w2 w3 l total_orders_def)
qed

text \<open>The 64-bit sum wraps: two flags \<open>2\<^sup>6\<^sup>3 - 1\<close> and \<open>1\<close> add up to \<open>- 2\<^sup>6\<^sup>3\<close>.\<close>

lemma wrap_int64_example: "wrap_int64 (9223372036854775807 + 1) = - 9223372036854775808"
  by (simp add: wrap_int64_def)


lemma high_value_eq_filter:
  "high_value v =
     filter (\<lambda>r. f_less (median (map Cost_of_the_Product v))
                  (Fin (real_of_int (Cost_of_the_Product r)))) v"
  by (simp add: high_value_def boolean_index_gt_scalar)

lemma sort_eq_Nil_iff: "sort xs = [] \<longleftrightarrow> xs = []"
  using length_sort [of "\<lambda>x. x" xs] by (metis length_0_conv)

lemma median_nonempty: "xs \<noteq> [] \<Longrightarrow> \<exists>m. median xs = Fin m"
proof (cases "odd (length xs)")
  case True
  assume "xs \<noteq> []"
  with True have "median xs = Fin (real_of_int (sort xs ! (length xs div 2)))"
    by (simp add: median_def Let_def sort_eq_Nil_iff)
  then show ?thesis by blast
next
  case False
  assume "xs \<noteq> []"
  with False have "median xs =
      Fin ((real_of_int (sort xs ! (length xs div 2 - 1))
            + real_of_int (sort xs ! (length xs div 2))) / 2)"
    by (simp add: median_def Let_def sort_eq_Nil_iff)
  then show ?thesis by blast
qed

lemma avg_calls_late_eq:
  "avg_calls_late v = Inr (mean (map Customer_care_calls (filter (\<lambda>r. OnTime r = 0) v)))"
  by (simp add: avg_calls_late_def boolean_index_eq_scalar)

lemma avg_discount_late_eq:
  "avg_discount_late v = Inr (mean (map Discount_offered (filter (\<lambda>r. OnTime r = 0) v)))"
  by (simp add: avg_discount_late_def boolean_index_eq_scalar)

lemma high_value_late_rate_value:
  "high_value_late_rate v =
     Inr (if high_value v = [] then NaN
          else Fin ((1 - real_of_int (sum_list (map OnTime (high_value v)))
                         / real (length (high_value v))) * 100))"
  by (simp add: high_value_late_rate_def mean_Nil mean_nonempty f_sub_def)

text \<open>
  C3 (as amended). The high-value rows are the rows of the view whose cost is strictly
  greater than the median cost of that same view (for a non-empty view the median is a
  finite number \<open>m\<close> and the rows are those with \<open>m < cost\<close>), and the high-value late
  rate is always a value: NaN when the high-value partition is empty, otherwise one
  minus the mean on-time flag of the partition, times 100.
\<close>

theorem high_value_late_rate_filter_relative:
  "high_value v =
     filter (\<lambda>r. f_less (median (map Cost_of_the_Product v))
                  (Fin (real_of_int (Cost_of_the_Product r)))) v \<and>
   (v = [] \<or> (\<exists>m. median (map Cost_of_the_Product v) = Fin m \<and>
      high_value v = filter (\<lambda>r. m < real_of_int (Cost_of_the_Product r)) v)) \<and>
   high_value_late_rate v =
     Inr (if high_value v = [] then NaN
          else Fin ((1 - real_of_int (sum_list (map OnTime (high_value v)))
                         / real (length (high_value v))) * 100))"
proof -
  have "\<exists>m. median (map Cost_of_the_Product v) = Fin m \<and>
      high_value v = filter (\<lambda>r. m < real_of_int (Cost_of_the_Product r)) v"
    if "v \<noteq> []"
  proof -
    from that obtain m where m: "median (map Cost_of_the_Product v) = Fin m"
      using median_nonempty [of "map Cost_of_the_Product v"] by auto
    then show ?thesis by (simp add: high_value_eq_filter)
  qed
  then show ?thesis
    using high_value_eq_filter [of v] high_value_late_rate_value [of v] by blast
qed

text \<open>
  C3 as stated fails on a one-row view: no cost exceeds the median, the partition is
  empty, and the statement binds NaN instead of failing with \<open>UndefinedMetric\<close>.
\<close>

theorem high_value_late_rate_empty_partition_not_UndefinedMetric:
  "high_value [mk_row ''Ship'' ''A'' ''low'' ''F'' 4 177 44 1] = [] \<and>
   high_value_late_rate [mk_row ''Ship'' ''A'' ''low'' ''F'' 4 177 44 1] \<noteq> Inl UndefinedMetric \<and>
   high_value_late_rate [mk_row ''Ship'' ''A'' ''low'' ''F'' 4 177 44 1] = Inr NaN"
  by (simp add: high_value_late_rate_value high_value_eq_filter median_def mk_row_def)

lemma median_example: "median [177, 216, 183, 176] = Fin 180"
  by (simp add: median_def)

theorem high_value_late_rate_filter_relative_witness:
  "high_value example_df = [example_df ! 1, example_df ! 2] \<and>
   high_value_late_rate example_df = Inr (Fin 50)"
  using high_value_late_rate_filter_relative [of example_df]
  by (simp add: example_df_def mk_row_def median_example)

lemma sum_list_all_ones:
  "\<forall>r\<in>set v. f r = (1::int) \<Longrightarrow> sum_list (map f v) = int (length v)"
  by (induction v) simp_all

text \<open>
  C5 (as amended). For every non-empty view whose on-time flags are all 1, the mean
  calls and the mean discount among late records are both the value NaN (no error is
  raised), the on-time rate is 100 and the late rate 0, and the high-value late rate is
  computed as well: every KPI statement yields a value.
\<close>

theorem no_late_records_means_NaN:
  assumes "v \<noteq> []" and "\<forall>r\<in>set v. OnTime r = 1"
  shows "avg_calls_late v = Inr NaN \<and> avg_discount_late v = Inr NaN \<and>
         on_time_rate v = Inr (Fin 100) \<and> late_rate v = Inr (Fin 0) \<and>
         (\<exists>x. high_value_late_rate v = Inr x)"
proof -
  have late: "filter (\<lambda>r. OnTime r = 0) v = []"
    using assms(2) by (auto simp: filter_empty_conv)
  have calls: "avg_calls_late v = Inr NaN"
    by (simp add: avg_calls_late_eq late mean_Nil)
  have disc: "avg_discount_late v = Inr NaN"
    by (simp add: avg_discount_late_eq late mean_Nil)
  have rate: "on_time_rate v = Inr (Fin 100)"
    using assms by (simp add: on_time_rate_value total_orders_def sum_list_all_ones)
  have lrate: "late_rate v = Inr (Fin 0)"
    by (simp add: late_rate_def rate f_sub_def)
  have "\<exists>x. high_value_late_rate v = Inr x"
    by (simp add: high_value_late_rate_def)
  with calls disc rate lrate show ?thesis by simp
qed

text \<open>
  C5 as stated fails: on a one-row view with flag 1 the two means are NaN values, not
  \<open>UndefinedMetric\<close> failures; and on the empty view, which has no late record either,
  the on-time rate is not 100.
\<close>

theorem no_late_records_not_UndefinedMetric:
  "avg_calls_late [mk_row ''Ship'' ''A'' ''low'' ''F'' 4 177 44 1] \<noteq> Inl UndefinedMetric \<and>
   avg_calls_late [mk_row ''Ship'' ''A'' ''low'' ''F'' 4 177 44 1] = Inr NaN \<and>
   avg_discount_late [mk_row ''Ship'' ''A'' ''low'' ''F'' 4 177 44 1] \<noteq> Inl UndefinedMetric \<and>
   avg_discount_late [mk_row ''Ship'' ''A'' ''low'' ''F'' 4 177 44 1] = Inr NaN \<and>
   on_time_rate [] \<noteq> Inr (Fin 100)"
  by (simp add: avg_calls_late_eq avg_discount_late_eq mean_Nil
      mk_row_def on_time_rate_value total_orders_def)

theorem no_late_records_means_NaN_witness:
  "avg_calls_late [example_df ! 0, example_df ! 2] = Inr NaN \<and>
   avg_discount_late [example_df ! 0, example_df ! 2] = Inr NaN \<and>
   on_time_rate [example_df ! 0, example_df ! 2] = Inr (Fin 100) \<and>
   late_rate [example_df ! 0, example_df ! 2] = Inr (Fin 0)"
proof -
  have h1: "[example_df ! 0, example_df ! 2] \<noteq> []" by simp
  have h2: "\<forall>r\<in>set [example_df ! 0, example_df ! 2]. OnTime r = 1"
    by (simp add: example_df_def mk_row_def)
  from no_late_records_means_NaN [OF h1 h2] show ?thesis by simp
qed

text \<open>
  C6. For every view of four records with on-time flags 1, 0, 1, 1 whose late record has
  5 customer-care calls and a discount of 20, the on-time rate is 75, the late rate 25,
  the mean calls among late records 5 and the mean discount among late records 20; the
  late rate is 100 minus the on-time rate.
\<close>

theorem four_record_example:
  assumes "map OnTime v = [1, 0, 1, 1]"
    and "map Customer_care_calls (filter (\<lambda>r. OnTime r = 0) v) = [5]"
    and "map Discount_offered (filter (\<lambda>r. OnTime r = 0) v) = [20]"
  shows "total_orders v = 4 \<and> on_time_rate v = Inr (Fin 75) \<and> late_rate v = Inr (Fin 25) \<and>
         avg_calls_late v = Inr (Fin 5) \<and> avg_discount_late v = Inr (Fin 20) \<and>
         late_rate v = map_sum id (\<lambda>x. f_sub (Fin 100) x) (on_time_rate v)"
proof -
  have len: "length v = 4"
    using arg_cong [OF assms(1), of length] by simp
  have rate: "on_time_rate v = Inr (Fin 75)"
    by (simp add: on_time_rate_value total_orders_def len assms(1))
  have lrate: "late_rate v = Inr (Fin 25)"
    by (simp add: late_rate_def rate f_sub_def)
  have calls: "avg_calls_late v = Inr (Fin 5)"
    by (simp add: avg_calls_late_eq assms(2) mean_def true_divide_def)
  have disc: "avg_discount_late v = Inr (Fin 20)"
    by (simp add: avg_discount_late_eq assms(3) mean_def true_divide_def)
  show ?thesis
    using len rate lrate calls disc by (simp add: total_orders_def late_rate_def)
qed

theorem four_record_example_witness:
  "map OnTime example_df = [1, 0, 1, 1] \<and>
   on_time_rate example_df = Inr (Fin 75) \<and> late_rate example_df = Inr (Fin 25) \<and>
   avg_calls_late example_df = Inr (Fin 5) \<and> avg_discount_late example_df = Inr (Fin 20)"
proof -
  have h1: "map OnTime example_df = [1, 0, 1, 1]"
    by (simp add: example_df_def mk_row_def)
  have h2: "map Customer_care_calls (filter (\<lambda>r. OnTime r = 0) example_df) = [5]"
    by (simp add: example_df_def mk_row_def)
  have h3: "map Discount_offered (filter (\<lambda>r. OnTime r = 0) example_df) = [20]"
    by (simp add: example_df_def mk_row_def)
  from four_record_example [OF h1 h2 h3] h1 show ?thesis by simp
qed

section \<open>Figure 1: the traces handed to the plotting library\<close>

lemma fig1_traces_pairs:
  "set (concat (map (\<lambda>(c, xs). map (\<lambda>m. (m, c)) xs) (fig1_traces v)))
     = set (map (\<lambda>r. (Mode_of_Shipment r, OnTime r)) v)"
  by (auto simp: fig1_traces_def set_unique)

lemma sum_count_unique: "(\<Sum>x\<leftarrow>unique xs. count_list xs x) = length xs"
proof -
  have "(\<Sum>x\<leftarrow>unique xs. count_list xs x) = sum (count_list xs) (set (unique xs))"
    by (simp add: sum_list_distinct_conv_sum_set distinct_unique)
  also have "\<dots> = length xs"
    by (simp add: set_unique sum_count_set)
  finally show ?thesis .
qed

lemma fig1_traces_total: "(\<Sum>(c, xs)\<leftarrow>fig1_traces v. length xs) = total_orders v"
proof -
  have "length (filter (\<lambda>r. OnTime r = c) v) = count_list (map OnTime v) c" for c
    by (induction v) auto
  then show ?thesis
    using sum_count_unique [of "map OnTime v"]
    by (simp add: fig1_traces_def total_orders_def comp_def)
qed


section \<open>Figure 5: the correlation matrix\<close>

lemma constant_column_iff: "constant_column xs \<longleftrightarrow> (\<forall>a\<in>set xs. \<forall>b\<in>set xs. a = b)"
proof -
  have "length (remdups xs) = card (set xs)"
    by (simp add: length_remdups_card_conv)
  then show ?thesis
    by (simp add: constant_column_def card_le_Suc0_iff_eq)
qed

lemma ssqdm_nonneg: "0 \<le> ssqdm xs"
  by (auto simp: ssqdm_def intro!: sum_list_nonneg)

lemma ssqdm_eq_0_iff: "ssqdm xs = 0 \<longleftrightarrow> (\<forall>x\<in>set xs. real_of_int x = mean_r xs)"
proof -
  have "ssqdm xs = 0 \<longleftrightarrow>
      (\<forall>d\<in>set (map (\<lambda>x. (real_of_int x - mean_r xs) * (real_of_int x - mean_r xs)) xs). d = 0)"
    unfolding ssqdm_def by (rule sum_list_nonneg_eq_0_iff) auto
  then show ?thesis by auto
qed

lemma mean_r_constant:
  assumes "xs \<noteq> []" and "\<forall>x\<in>set xs. x = a"
  shows "mean_r xs = real_of_int a"
proof -
  have "xs = replicate (length xs) a"
    using assms(2) by (simp add: replicate_length_same)
  then have "sum_list xs = int (length xs) * a"
    by (metis sum_list_replicate mult_of_nat_commute)
  with assms(1) show ?thesis
    by (simp add: mean_r_def)
qed

lemma ssqdm_zero_iff_constant: "ssqdm xs = 0 \<longleftrightarrow> constant_column xs"
proof
  assume "ssqdm xs = 0"
  then have "\<forall>a\<in>set xs. \<forall>b\<in>set xs. real_of_int a = real_of_int b"
    by (simp add: ssqdm_eq_0_iff)
  then show "constant_column xs"
    by (simp add: constant_column_iff)
next
  assume c: "constant_column xs"
  show "ssqdm xs = 0"
  proof (cases "xs = []")
    case True
    then show ?thesis by (simp add: ssqdm_def)
  next
    case False
    then obtain a where a: "a \<in> set xs" by (cases xs) auto
    with c have all: "\<forall>x\<in>set xs. x = a"
      by (simp add: constant_column_iff)
    from False all have "mean_r xs = real_of_int a"
      by (rule mean_r_constant)
    with all show ?thesis
      by (simp add: ssqdm_eq_0_iff)
  qed
qed

lemma covxy_self: "covxy xs xs = ssqdm xs"
  by (simp add: covxy_def ssqdm_def zip_same_conv_map comp_def)

lemma pearson_self:
  "pearson xs xs = (if constant_column xs then NaN else Fin 1)"
proof (cases "constant_column xs")
  case True
  then have "ssqdm xs = 0" by (simp add: ssqdm_zero_iff_constant)
  with True show ?thesis by (simp add: pearson_def)
next
  case False
  then have nz: "ssqdm xs \<noteq> 0" by (simp add: ssqdm_zero_iff_constant)
  then have pos: "0 < ssqdm xs" using ssqdm_nonneg [of xs] by simp
  from False have "\<not> length xs < 1" by (auto simp: constant_column_def)
  with nz have "pearson xs xs = Fin (ssqdm xs / sqrt (ssqdm xs * ssqdm xs))"
    by (simp add: pearson_def covxy_self Let_def)
  also have "\<dots> = Fin 1" using pos by simp
  finally show ?thesis using False by simp
qed

lemma pearson_constant_left: "constant_column xs \<Longrightarrow> pearson xs ys = NaN"
  by (simp add: pearson_def ssqdm_zero_iff_constant [symmetric])

lemma pearson_constant_right: "constant_column ys \<Longrightarrow> pearson xs ys = NaN"
  by (simp add: pearson_def ssqdm_zero_iff_constant [symmetric])

lemma corr_nth:
  "i < length cols \<Longrightarrow> j < length cols \<Longrightarrow> corr cols ! i ! j = pearson (cols ! i) (cols ! j)"
  by (simp add: corr_def)

text \<open>
  C9 (as amended). For every list of numeric columns and every two positions in it: when
  the column at the first position is not constant its diagonal entry of the correlation
  matrix is exactly 1; when it is constant, every entry of its row and of its column is
  NaN, the diagonal entry included.
\<close>

theorem corr_diagonal_and_constant_columns:
  assumes "i < length cols" and "j < length cols"
  shows "if constant_column (cols ! i)
         then corr cols ! i ! j = NaN \<and> corr cols ! j ! i = NaN \<and> corr cols ! i ! i = NaN
         else corr cols ! i ! i = Fin 1"
  using assms
  by (simp add: corr_nth pearson_self pearson_constant_left pearson_constant_right)

text \<open>
  C9 as stated fails on a view of two distinct rows whose customer-care calls are both 4:
  the diagonal entry of that column is NaN, not 1.
\<close>

theorem corr_diagonal_of_constant_column_is_NaN:
  "length constant_calls_view = 2 \<and> distinct constant_calls_view \<and>
   fig5 constant_calls_view ! 0 ! 0 = NaN \<and> fig5 constant_calls_view ! 0 ! 0 \<noteq> Fin 1"
proof -
  have "fig5 constant_calls_view ! 0 ! 0 = pearson [4, 4] [4, 4]"
    by (simp add: fig5_def corr_def select_dtypes_number_def constant_calls_view_def mk_row_def)
  moreover have "pearson [4, 4] [4, 4] = NaN"
    by (simp add: pearson_self constant_column_def)
  moreover have "length constant_calls_view = 2 \<and> distinct constant_calls_view"
    by (simp add: constant_calls_view_def mk_row_def)
  ultimately show ?thesis by simp
qed

theorem corr_diagonal_and_constant_columns_witness:
  "fig5 example_df ! 0 ! 0 = Fin 1 \<and> fig5 example_df ! 4 ! 4 = Fin 1 \<and>
   fig5 constant_calls_view ! 0 ! 1 = NaN \<and> fig5 constant_calls_view ! 1 ! 0 = NaN \<and>
   fig5 constant_calls_view ! 1 ! 1 = Fin 1"
proof -
  have len: "length (select_dtypes_number v) = 5" for v
    by (simp add: select_dtypes_number_def)
  have a: "\<not> constant_column (select_dtypes_number example_df ! 0)"
    by (simp add: select_dtypes_number_def example_df_def mk_row_def constant_column_def)
  have b: "\<not> constant_column (select_dtypes_number example_df ! 4)"
    by (simp add: select_dtypes_number_def example_df_def mk_row_def constant_column_def)
  have c: "constant_column (select_dtypes_number constant_calls_view ! 0)"
    by (simp add: select_dtypes_number_def constant_calls_view_def mk_row_def constant_column_def)
  have d: "\<not> constant_column (select_dtypes_number constant_calls_view ! 1)"
    by (simp add: select_dtypes_number_def constant_calls_view_def mk_row_def constant_column_def)
  show ?thesis
    using corr_diagonal_and_constant_columns [of 0 "select_dtypes_number example_df" 0]
      corr_diagonal_and_constant_columns [of 4 "select_dtypes_number example_df" 4]
      corr_diagonal_and_constant_columns [of 0 "select_dtypes_number constant_calls_view" 1]
      corr_diagonal_and_constant_columns [of 1 "select_dtypes_number constant_calls_view" 1]
      a b c d
    by (simp add: len fig5_def)
qed

end
